theory Spec2Isabelle
  imports Complex_Main "HOL-Library.Signed_Division"
begin

section \<open>The Deribit simulation broker (brokers/deribit-sim-broker/simbroker.go)\<close>

text \<open>
  A shallow embedding of \<^verbatim>\<open>DiribitSimBroker\<close>: the order matcher and the position and
  balance accounting behind it.

  Modelling decisions, all of them visible in the definitions below:
  \<^item> Go's \<^verbatim>\<open>float64\<close> is idealised as \<^typ>\<open>real\<close>: arithmetic is exact, there is no
    rounding, no infinity and no NaN. Concrete inputs used below are chosen so that the
    quantities a statement looks at are computed exactly by \<^verbatim>\<open>float64\<close> as well.
  \<^item> \<^verbatim>\<open>int(x)\<close> on a float truncates towards zero and Go's \<^verbatim>\<open>%\<close> is the truncated
    remainder (\<open>smod\<close>).
  \<^item> The receiver \<^verbatim>\<open>b *DiribitSimBroker\<close> is passed explicitly and returned updated.
  \<^item> \<^verbatim>\<open>positions\<close> is a \<^verbatim>\<open>map[string]*Position\<close>: a key may be absent, and a stored
    pointer may be \<^verbatim>\<open>nil\<close>. The model keeps both: the map is partial and its values are
    \<^typ>\<open>'a option\<close>, where \<open>None\<close> is the nil pointer. A write through a pointer
    obtained under a key is a map update at that key.
  \<^item> A function that can end the process (\<^verbatim>\<open>log.Fatalf\<close>, a nil dereference) returns
    \<open>Inl\<close> of the reason; a Go \<^verbatim>\<open>error\<close> result is an \<^typ>\<open>'a option\<close> of the
    error value.
  \<^item> \<^verbatim>\<open>CalcPnl\<close> lives in the \<^verbatim>\<open>models\<close> package, outside this file: every function that
    calls it takes it as the parameter \<open>calcPnl\<close> (its first result; the second one is
    discarded by every caller).
\<close>

subsection \<open>Data\<close>

datatype Direction = Buy | Sell | DirectionOther

datatype OrderType = OrderTypeMarket | OrderTypeLimit | OrderTypeOther

datatype OrderStatus =
  OrderStatusNew | OrderStatusPartiallyFilled | OrderStatusFilled
  | OrderStatusCancelled | OrderStatusRejected

record Order =
  ID :: nat
  OrderSymbol :: string
  Price :: real
  Amount :: real
  OrderAvgPrice :: real
  FilledAmount :: real
  OrderDirection :: Direction
  OrderTyp :: OrderType
  PostOnly :: bool
  ReduceOnly :: bool
  Status :: OrderStatus

record Position =
  Symbol :: string
  OpenI :: nat
  OpenPrice :: real
  Size :: real
  AvgPrice :: real

record Tick =
  Timestamp :: nat
  Bid :: real
  Ask :: real
  BidVolume :: int
  AskVolume :: int

record AccountSummary =
  Balance :: real
  Pnl :: real
  Equity :: real

record DiribitSimBroker =
  data :: Tick
  makerFeeRate :: real
  takerFeeRate :: real
  balance :: real
  orders :: "nat \<rightharpoonup> Order"
  openOrders :: "nat \<rightharpoonup> Order"
  historyOrders :: "nat \<rightharpoonup> Order"
  positions :: "string \<rightharpoonup> Position option"

text \<open>The values of Go's \<^verbatim>\<open>error\<close> results, one constructor per message of the source.\<close>

datatype error =
  InvalidSize
  | MaximumPositionSize
  | MaximumMarginSize real
  | LimitOrderUnsupported
  | WrongDirection
  | NoPosition
  | NotFound

text \<open>The two ways the process can stop.\<close>

datatype abort = FatalPositionError string | NilPointerDereference

definition PositionSizeLimit :: int where
  "PositionSizeLimit = 100000"

subsection \<open>Declarations of the models package, and Go's conversion\<close>

definition IsOpen :: "Order \<Rightarrow> bool" where
  \<comment> \<open>Modelled from the spec: \<^verbatim>\<open>Order.IsOpen\<close> is declared in the \<^verbatim>\<open>models\<close> package. The
     spec lists the statuses new, partially-filled, filled, cancelled, rejected and
     files an order as open unless its status is terminal.\<close>
  "IsOpen order = (Status order = OrderStatusNew \<or> Status order = OrderStatusPartiallyFilled)"

definition Side :: "Position \<Rightarrow> Direction" where
  \<comment> \<open>Modelled from the spec: \<^verbatim>\<open>Position.Side\<close> is declared in the \<^verbatim>\<open>models\<close> package. The
     spec reads a positive size as long, a negative size as short and zero as flat.\<close>
  "Side position =
     (if Size position > 0 then Buy else if Size position < 0 then Sell else DirectionOther)"

definition int_of_float64 :: "real \<Rightarrow> int" where
  \<comment> \<open>Go's conversion \<^verbatim>\<open>int(x)\<close>, for a value within the range of \<^verbatim>\<open>int\<close>: the fraction is
     discarded.\<close>
  "int_of_float64 x = (if 0 \<le> x then \<lfloor>x\<rfloor> else \<lceil>x\<rceil>)"

subsection \<open>Construction and balance\<close>

definition NewBroker :: "Tick \<Rightarrow> real \<Rightarrow> real \<Rightarrow> real \<Rightarrow> DiribitSimBroker" where
  "NewBroker d cash makerFee takerFee =
     \<lparr>data = d, makerFeeRate = makerFee, takerFeeRate = takerFee, balance = cash,
      orders = Map.empty, openOrders = Map.empty, historyOrders = Map.empty,
      positions = Map.empty\<rparr>"

definition addBalance :: "DiribitSimBroker \<Rightarrow> real \<Rightarrow> DiribitSimBroker" where
  "addBalance b v = b\<lparr>balance := balance b + v\<rparr>"

definition addPnl :: "DiribitSimBroker \<Rightarrow> real \<Rightarrow> DiribitSimBroker" where
  "addPnl b pnl = b\<lparr>balance := balance b + pnl\<rparr>"

subsection \<open>The position ledger\<close>

definition getPosition :: "DiribitSimBroker \<Rightarrow> string \<Rightarrow> Position option \<times> DiribitSimBroker" where
  "getPosition b symbol =
     (case positions b symbol of
        Some position \<Rightarrow> (position, b)
      | None \<Rightarrow>
          (let position = \<lparr>Symbol = symbol, OpenI = 0, OpenPrice = 0, Size = 0, AvgPrice = 0\<rparr>
           in (Some position, b\<lparr>positions := (positions b)(symbol \<mapsto> Some position)\<rparr>)))"

definition addPosition :: "Position \<Rightarrow> real \<Rightarrow> real \<Rightarrow> error option \<times> Position" where
  "addPosition position sz price =
     (if (Size position < 0 \<and> sz > 0) \<or> (Size position > 0 \<and> sz < 0)
      then (Some WrongDirection, position)
      else
        (let positionCost =
               (if Size position \<noteq> 0 \<and> AvgPrice position \<noteq> 0
                then \<bar>Size position\<bar> / AvgPrice position else 0);
             newPositionCost = \<bar>sz\<bar> / price;
             totalCost = positionCost + newPositionCost;
             totalSize = \<bar>Size position + sz\<bar>;
             avgPrice = totalSize / totalCost
         in (None, position\<lparr>AvgPrice := avgPrice, Size := Size position + sz\<rparr>)))"

definition closePosition ::
  "(Direction \<Rightarrow> real \<Rightarrow> real \<Rightarrow> real \<Rightarrow> real) \<Rightarrow> DiribitSimBroker \<Rightarrow> Position \<Rightarrow> real \<Rightarrow> real
     \<Rightarrow> error option \<times> Position \<times> DiribitSimBroker" where
  "closePosition calcPnl b position sz price =
     (if Size position = 0 then (Some NoPosition, position, b)
      else if (Size position > 0 \<and> sz > 0) \<or> (Size position < 0 \<and> sz < 0)
      then (Some WrongDirection, position, b)
      else
        (let remaining = \<bar>sz\<bar> - \<bar>Size position\<bar>
         in if remaining > 0 then
              (let pnl = calcPnl (Side position) \<bar>Size position\<bar> (AvgPrice position) price
               in (None, position\<lparr>AvgPrice := price, Size := Size position + sz\<rparr>,
                   addPnl b pnl))
            else if remaining = 0 then
              (let pnl = calcPnl (Side position) \<bar>sz\<bar> (AvgPrice position) price
               in (None, position\<lparr>AvgPrice := 0, Size := 0\<rparr>, addPnl b pnl))
            else
              (let pnl = calcPnl (Side position) \<bar>Size position\<bar> (AvgPrice position) price
               in (None, position\<lparr>Size := Size position + sz\<rparr>, addPnl b pnl))))"

definition updatePosition ::
  "(Direction \<Rightarrow> real \<Rightarrow> real \<Rightarrow> real \<Rightarrow> real) \<Rightarrow> DiribitSimBroker \<Rightarrow> string \<Rightarrow> real \<Rightarrow> real
     \<Rightarrow> abort + DiribitSimBroker" where
  \<comment> \<open>The error result of \<^verbatim>\<open>closePosition\<close> and \<^verbatim>\<open>addPosition\<close> is dropped, as in the source.\<close>
  "updatePosition calcPnl b symbol sz price =
     (case getPosition b symbol of
        (None, b1) \<Rightarrow> Inl (FatalPositionError symbol)
      | (Some position, b1) \<Rightarrow>
          if (Size position > 0 \<and> sz < 0) \<or> (Size position < 0 \<and> sz > 0) then
            (case closePosition calcPnl b1 position sz price of
               (err, position', b2) \<Rightarrow>
                 Inr (b2\<lparr>positions := (positions b2)(symbol \<mapsto> Some position')\<rparr>))
          else
            (case addPosition position sz price of
               (err, position') \<Rightarrow>
                 Inr (b1\<lparr>positions := (positions b1)(symbol \<mapsto> Some position')\<rparr>)))"

subsection \<open>Matching\<close>

definition matchMarketOrder ::
  "(Direction \<Rightarrow> real \<Rightarrow> real \<Rightarrow> real \<Rightarrow> real) \<Rightarrow> DiribitSimBroker \<Rightarrow> Order
     \<Rightarrow> abort + (error option \<times> DiribitSimBroker)" where
  \<comment> \<open>The source never writes to the order, so only the broker is returned.\<close>
  "matchMarketOrder calcPnl b order =
     (if \<not> IsOpen order then Inr (None, b)
      else if int_of_float64 (Amount order) smod 10 \<noteq> 0 then Inr (Some InvalidSize, b)
      else
        (case getPosition b (OrderSymbol order) of
           (None, b1) \<Rightarrow> Inl NilPointerDereference
         | (Some position, b1) \<Rightarrow>
             if int_of_float64 (Size position + Amount order) > PositionSizeLimit
                \<or> int_of_float64 (Size position - Amount order) < - PositionSizeLimit
             then Inr (Some MaximumPositionSize, b1)
             else
               (let tick = data b1; margin = balance b1
                in if OrderDirection order = Buy then
                     (let maxAmount = margin * 100 * Ask tick
                      in if Amount order > maxAmount
                         then Inr (Some (MaximumMarginSize maxAmount), b1)
                         else
                           (let price = Ask tick; sz = Amount order;
                                fee = sz / price * takerFeeRate b1
                            in case updatePosition calcPnl (addBalance b1 (- fee))
                                      (OrderSymbol order) sz price of
                                 Inl a \<Rightarrow> Inl a
                               | Inr b2 \<Rightarrow> Inr (None, b2)))
                   else if OrderDirection order = Sell then
                     (let maxAmount = margin * 100 * Bid tick
                      in if Amount order > maxAmount
                         then Inr (Some (MaximumMarginSize maxAmount), b1)
                         else
                           (let price = Bid tick; sz = Amount order;
                                fee = sz / price * takerFeeRate b1
                            in case updatePosition calcPnl (addBalance b1 (- fee))
                                      (OrderSymbol order) (- sz) price of
                                 Inl a \<Rightarrow> Inl a
                               | Inr b2 \<Rightarrow> Inr (None, b2)))
                   else Inr (None, b1))))"

definition matchLimitOrder :: "DiribitSimBroker \<Rightarrow> Order \<Rightarrow> abort + (error option \<times> DiribitSimBroker)" where
  \<comment> \<open>Both marketability tests of the source have an empty body.\<close>
  "matchLimitOrder b order =
     (if \<not> IsOpen order then Inr (None, b) else Inr (Some LimitOrderUnsupported, b))"

definition matchOrder ::
  "(Direction \<Rightarrow> real \<Rightarrow> real \<Rightarrow> real \<Rightarrow> real) \<Rightarrow> DiribitSimBroker \<Rightarrow> Order
     \<Rightarrow> abort + (error option \<times> DiribitSimBroker)" where
  "matchOrder calcPnl b order =
     (case OrderTyp order of
        OrderTypeMarket \<Rightarrow> matchMarketOrder calcPnl b order
      | OrderTypeLimit \<Rightarrow> matchLimitOrder b order
      | OrderTypeOther \<Rightarrow> Inr (None, b))"

definition PlaceOrder ::
  "(Direction \<Rightarrow> real \<Rightarrow> real \<Rightarrow> real \<Rightarrow> real) \<Rightarrow> DiribitSimBroker \<Rightarrow> nat \<Rightarrow> string \<Rightarrow> Direction
     \<Rightarrow> OrderType \<Rightarrow> real \<Rightarrow> real \<Rightarrow> bool \<Rightarrow> bool \<Rightarrow> abort + (error option \<times> DiribitSimBroker)" where
  \<comment> \<open>\<open>oid\<close> is the value \<^verbatim>\<open>util2.NextID()\<close> returned. The named result \<^verbatim>\<open>result\<close> is never
     assigned in the source, so the order value returned is always the zero value; it is
     left out of the model.\<close>
  "PlaceOrder calcPnl b oid symbol direction orderType price amount postOnly reduceOnly =
     (let order = \<lparr>ID = oid, OrderSymbol = symbol, Price = price, Amount = amount,
                   OrderAvgPrice = 0, FilledAmount = 0, OrderDirection = direction,
                   OrderTyp = orderType, PostOnly = postOnly, ReduceOnly = reduceOnly,
                   Status = OrderStatusNew\<rparr>
      in case matchOrder calcPnl b order of
           Inl a \<Rightarrow> Inl a
         | Inr (Some err, b1) \<Rightarrow> Inr (Some err, b1)
         | Inr (None, b1) \<Rightarrow>
             (let b2 = (if IsOpen order
                        then b1\<lparr>openOrders := (openOrders b1)(oid \<mapsto> order)\<rparr>
                        else b1\<lparr>historyOrders := (historyOrders b1)(oid \<mapsto> order)\<rparr>)
              in Inr (None, b2\<lparr>orders := (orders b2)(oid \<mapsto> order)\<rparr>)))"

subsection \<open>Queries\<close>

definition GetAccountSummary ::
  "(Direction \<Rightarrow> real \<Rightarrow> real \<Rightarrow> real \<Rightarrow> real) \<Rightarrow> DiribitSimBroker \<Rightarrow> string
     \<Rightarrow> abort + (AccountSummary \<times> DiribitSimBroker)" where
  "GetAccountSummary calcPnl b currency =
     (let symbol = (if currency = ''BTC'' then ''BTC-PERPETUAL''
                    else if currency = ''ETH'' then ''ETH-PERPETUAL'' else '''')
      in case getPosition b symbol of
           (None, b1) \<Rightarrow> Inl NilPointerDereference
         | (Some position, b1) \<Rightarrow>
             (let tick = data b1; side = Side position;
                  price = (if side = Buy then Ask tick else if side = Sell then Bid tick else 0);
                  pnl = calcPnl side \<bar>Size position\<bar> (AvgPrice position) price
              in Inr (\<lparr>Balance = balance b1, Pnl = pnl, Equity = balance b1 + pnl\<rparr>, b1)))"

definition GetOrder :: "DiribitSimBroker \<Rightarrow> string \<Rightarrow> nat \<Rightarrow> (error + Order) \<times> DiribitSimBroker" where
  "GetOrder b symbol oid =
     (case orders b oid of None \<Rightarrow> (Inl NotFound, b) | Some order \<Rightarrow> (Inr order, b))"

definition GetPosition ::
  "DiribitSimBroker \<Rightarrow> string \<Rightarrow> abort + ((error + Position) \<times> DiribitSimBroker)" where
  "GetPosition b symbol =
     (case positions b symbol of
        None \<Rightarrow> Inr (Inl NotFound, b)
      | Some None \<Rightarrow> Inl NilPointerDereference
      | Some (Some position) \<Rightarrow> Inr (Inr position, b))"

subsection \<open>Reachable broker states\<close>

text \<open>
  The fields of the broker are unexported and \<^verbatim>\<open>NewBroker\<close> is the only constructor, so a
  state is reached from \<^verbatim>\<open>NewBroker\<close> by the exported operations, while the data feed
  may replace the current tick between two calls. \<^verbatim>\<open>GetOrderBook\<close> and \<^verbatim>\<open>GetOpenOrders\<close>
  only read the state; they are not modelled.
\<close>

definition positionsAllocated :: "DiribitSimBroker \<Rightarrow> bool" where
  \<comment> \<open>No key of \<^verbatim>\<open>positions\<close> holds a nil pointer.\<close>
  "positionsAllocated b = (\<forall>symbol. positions b symbol \<noteq> Some None)"

inductive reachable :: "(Direction \<Rightarrow> real \<Rightarrow> real \<Rightarrow> real \<Rightarrow> real) \<Rightarrow> DiribitSimBroker \<Rightarrow> bool"
  for calcPnl :: "Direction \<Rightarrow> real \<Rightarrow> real \<Rightarrow> real \<Rightarrow> real" where
  reachable_NewBroker: "reachable calcPnl (NewBroker d cash makerFee takerFee)"
| reachable_tick: "reachable calcPnl b \<Longrightarrow> reachable calcPnl (b\<lparr>data := d\<rparr>)"
| reachable_PlaceOrder:
    "reachable calcPnl b \<Longrightarrow>
     PlaceOrder calcPnl b oid symbol direction orderType price amount postOnly reduceOnly
       = Inr (err, b') \<Longrightarrow> reachable calcPnl b'"
| reachable_GetAccountSummary:
    "reachable calcPnl b \<Longrightarrow> GetAccountSummary calcPnl b currency = Inr (result, b')
     \<Longrightarrow> reachable calcPnl b'"
| reachable_GetOrder:
    "reachable calcPnl b \<Longrightarrow> GetOrder b symbol oid = (r, b') \<Longrightarrow> reachable calcPnl b'"
| reachable_GetPosition:
    "reachable calcPnl b \<Longrightarrow> GetPosition b symbol = Inr (rp, b') \<Longrightarrow> reachable calcPnl b'"

subsection \<open>Data for the concrete examples\<close>

text \<open>
  A quote, a profit function and a broker for the closed examples. The prices and the fee
  rate are powers of two, so that \<^verbatim>\<open>float64\<close> computes the examples without rounding.
  \<open>examplePnl\<close> is the usual profit of an inverse contract; it only stands in for
  \<^verbatim>\<open>CalcPnl\<close> where an example needs some concrete function.
\<close>

definition tick0 :: Tick where
  "tick0 = \<lparr>Timestamp = 0, Bid = 8192, Ask = 8192, BidVolume = 1, AskVolume = 1\<rparr>"

definition examplePnl :: "Direction \<Rightarrow> real \<Rightarrow> real \<Rightarrow> real \<Rightarrow> real" where
  "examplePnl side quantity entry exit =
     (if side = Buy then quantity * (1 / entry - 1 / exit)
      else if side = Sell then quantity * (1 / exit - 1 / entry) else 0)"

definition broker0 :: DiribitSimBroker where
  "broker0 = NewBroker tick0 100 0 (1 / 1024)"

definition order0 :: Order where
  "order0 = \<lparr>ID = 1, OrderSymbol = ''BTC-PERPETUAL'', Price = 0, Amount = 10,
       OrderAvgPrice = 0, FilledAmount = 0, OrderDirection = Buy,
       OrderTyp = OrderTypeMarket, PostOnly = False, ReduceOnly = False,
       Status = OrderStatusNew\<rparr>"

section \<open>The position ledger\<close>

subsection \<open>Looking a position up\<close>

lemma getPosition_present:
  "positions b symbol = Some ptr \<Longrightarrow> getPosition b symbol = (ptr, b)"
  by (simp add: getPosition_def)

lemma getPosition_absent:
  "positions b symbol = None \<Longrightarrow>
   getPosition b symbol =
     (Some \<lparr>Symbol = symbol, OpenI = 0, OpenPrice = 0, Size = 0, AvgPrice = 0\<rparr>,
      b\<lparr>positions := (positions b)(symbol \<mapsto>
            Some \<lparr>Symbol = symbol, OpenI = 0, OpenPrice = 0, Size = 0, AvgPrice = 0\<rparr>)\<rparr>)"
  by (simp add: getPosition_def Let_def)

lemma getPosition_frame:
  assumes "getPosition b symbol = (ptr, b1)"
  shows "orders b1 = orders b" and "openOrders b1 = openOrders b"
    and "historyOrders b1 = historyOrders b" and "balance b1 = balance b"
    and "data b1 = data b" and "takerFeeRate b1 = takerFeeRate b"
    and "positions b1 symbol = Some ptr"
  using assms by (auto simp: getPosition_def Let_def split: option.splits)

lemma getPosition_allocated:
  assumes "positionsAllocated b" and "getPosition b symbol = (ptr, b1)"
  shows "ptr \<noteq> None" and "positionsAllocated b1"
proof -
  show "ptr \<noteq> None"
  proof (cases "positions b symbol")
    case None
    with assms(2) show ?thesis by (auto simp: getPosition_absent)
  next
    case (Some p)
    with assms(1) have "p \<noteq> None" by (metis positionsAllocated_def)
    with Some assms(2) show ?thesis by (simp add: getPosition_present)
  qed
  show "positionsAllocated b1"
  proof (cases "positions b symbol")
    case None
    with assms show ?thesis
      by (auto simp: getPosition_absent positionsAllocated_def split: if_splits)
  next
    case (Some p)
    with assms show ?thesis by (simp add: getPosition_present)
  qed
qed

lemma getPosition_broker0:
  "getPosition broker0 ''BTC-PERPETUAL'' =
     (Some \<lparr>Symbol = ''BTC-PERPETUAL'', OpenI = 0, OpenPrice = 0, Size = 0, AvgPrice = 0\<rparr>,
      broker0\<lparr>positions := [''BTC-PERPETUAL'' \<mapsto>
         Some \<lparr>Symbol = ''BTC-PERPETUAL'', OpenI = 0, OpenPrice = 0, Size = 0, AvgPrice = 0\<rparr>]\<rparr>)"
  by (simp add: getPosition_def broker0_def NewBroker_def Let_def)

subsection \<open>Closing\<close>

lemma closePosition_frame:
  assumes "closePosition calcPnl b position sz price = (err, position', b')"
  shows "positions b' = positions b" and "orders b' = orders b"
    and "openOrders b' = openOrders b" and "historyOrders b' = historyOrders b"
  using assms by (auto simp: closePosition_def addPnl_def Let_def split: if_splits)

lemma closePosition_credit:
  "balance (snd (snd (closePosition calcPnl b position sz price))) - balance b =
   balance (snd (snd (closePosition calcPnl b0 position sz price))) - balance b0"
  by (simp add: closePosition_def addPnl_def Let_def)

lemma closePosition_size:
  assumes "(Size position > 0 \<and> sz < 0) \<or> (Size position < 0 \<and> sz > 0)"
  shows "Size (fst (snd (closePosition calcPnl b position sz price))) = Size position + sz"
  using assms by (auto simp: closePosition_def Let_def)

text \<open>
  What the last branch of \<^verbatim>\<open>closePosition\<close> does for any partial close: the size is reduced
  and the average price kept, but the quantity handed to \<^verbatim>\<open>CalcPnl\<close> is the size of the
  whole position, not the size that is closed.
\<close>

lemma closePosition_partial:
  assumes "(Size position > 0 \<and> sz < 0) \<or> (Size position < 0 \<and> sz > 0)"
    and "\<bar>sz\<bar> < \<bar>Size position\<bar>"
  shows "closePosition calcPnl b position sz price =
           (None, position\<lparr>Size := Size position + sz\<rparr>,
            b\<lparr>balance := balance b
                   + calcPnl (Side position) \<bar>Size position\<bar> (AvgPrice position) price\<rparr>)"
  using assms by (auto simp: closePosition_def addPnl_def Let_def)

text \<open>
  C1. A partial close should realise the profit of the closed portion \<open>\<bar>sz\<bar>\<close>. On a long
  position of 500 at average price 100, selling 200 at 110 leaves 300 at 100, as the claim
  says, but the balance is credited with the profit of all 500 contracts: the source passes
  \<^verbatim>\<open>math.Abs(position.Size)\<close> where the branch for the exact close passes
  \<^verbatim>\<open>math.Abs(size)\<close>.
\<close>

theorem closePosition_partial_books_whole_position:
  "closePosition calcPnl b
      \<lparr>Symbol = ''BTC-PERPETUAL'', OpenI = 0, OpenPrice = 0, Size = 500, AvgPrice = 100\<rparr>
      (- 200) 110 =
     (None,
      \<lparr>Symbol = ''BTC-PERPETUAL'', OpenI = 0, OpenPrice = 0, Size = 300, AvgPrice = 100\<rparr>,
      b\<lparr>balance := balance b + calcPnl Buy 500 100 110\<rparr>)"
  by (simp add: closePosition_def addPnl_def Side_def Let_def)

text \<open>
  C6. An over-close (a close of the opposite sign whose magnitude exceeds the position's)
  realises the profit of the whole prior position, entered at the old average price and
  left at the fill price, sets the average price to the fill price and the size to
  \<open>Size position + sz\<close>, whose magnitude is the excess and whose sign is the opposite one.
\<close>

theorem closePosition_over_close:
  assumes "(Size position > 0 \<and> sz < 0) \<or> (Size position < 0 \<and> sz > 0)"
    and "\<bar>Size position\<bar> < \<bar>sz\<bar>"
  shows "closePosition calcPnl b position sz price =
           (None, position\<lparr>AvgPrice := price, Size := Size position + sz\<rparr>,
            b\<lparr>balance := balance b
                   + calcPnl (if Size position > 0 then Buy else Sell)
                       \<bar>Size position\<bar> (AvgPrice position) price\<rparr>)
         \<and> \<bar>Size position + sz\<bar> = \<bar>sz\<bar> - \<bar>Size position\<bar>
         \<and> (Size position > 0 \<longleftrightarrow> Size position + sz < 0)"
  using assms by (auto simp: closePosition_def addPnl_def Side_def Let_def)

text \<open>The example of the specification: 300 long at 100, 500 sold at 90.\<close>

theorem closePosition_over_close_witness:
  "closePosition examplePnl broker0
      \<lparr>Symbol = ''BTC-PERPETUAL'', OpenI = 0, OpenPrice = 0, Size = 300, AvgPrice = 100\<rparr>
      (- 500) 90 =
     (None,
      \<lparr>Symbol = ''BTC-PERPETUAL'', OpenI = 0, OpenPrice = 0, Size = - 200, AvgPrice = 90\<rparr>,
      broker0\<lparr>balance := balance broker0 + examplePnl Buy 300 100 90\<rparr>)"
  using closePosition_over_close
    [of "\<lparr>Symbol = ''BTC-PERPETUAL'', OpenI = 0, OpenPrice = 0, Size = 300, AvgPrice = 100\<rparr>"
        "- 500" examplePnl broker0 90]
  by simp

subsection \<open>Adding\<close>

lemma addPosition_size:
  assumes "\<not> ((Size position > 0 \<and> sz < 0) \<or> (Size position < 0 \<and> sz > 0))"
  shows "Size (snd (addPosition position sz price)) = Size position + sz"
  using assms by (auto simp: addPosition_def Let_def)

text \<open>
  The average price \<^verbatim>\<open>addPosition\<close> stores is a quotient of \<^verbatim>\<open>float64\<close> values that are
  themselves rounded quotients and sums. That it equals a closed formula such as
  \<open>(S1 + S2) / (S1 / P1 + S2 / P2)\<close> rests on identities like \<open>S / (S / P) = P\<close>, which hold
  for reals and fail for \<^verbatim>\<open>float64\<close> (rounding, overflow of \<open>S / P\<close> for a tiny price). This
  embedding cannot express either effect, so no such equality is stated here; only the
  size, which the source computes by one addition, is.
\<close>

subsection \<open>Dispatching\<close>

lemma updatePosition_unfold:
  assumes "getPosition b symbol = (Some position, b1)"
  shows "updatePosition calcPnl b symbol sz price =
           (if (Size position > 0 \<and> sz < 0) \<or> (Size position < 0 \<and> sz > 0)
            then Inr ((snd (snd (closePosition calcPnl b1 position sz price)))
                   \<lparr>positions := (positions (snd (snd (closePosition calcPnl b1 position sz price))))
                        (symbol \<mapsto> Some (fst (snd (closePosition calcPnl b1 position sz price))))\<rparr>)
            else Inr (b1\<lparr>positions := (positions b1)
                        (symbol \<mapsto> Some (snd (addPosition position sz price)))\<rparr>))"
  using assms by (simp add: updatePosition_def split: prod.splits)

lemma updatePosition_frame:
  assumes "updatePosition calcPnl b symbol sz price = Inr b'"
  shows "orders b' = orders b \<and> openOrders b' = openOrders b
         \<and> historyOrders b' = historyOrders b"
proof -
  obtain ptr b1 where g: "getPosition b symbol = (ptr, b1)"
    by (cases "getPosition b symbol")
  with assms obtain position where ptr: "ptr = Some position"
    by (cases ptr) (auto simp: updatePosition_def)
  obtain err position' b2 where c: "closePosition calcPnl b1 position sz price = (err, position', b2)"
    by (cases "closePosition calcPnl b1 position sz price")
  note f = getPosition_frame [OF g] closePosition_frame [OF c]
  from assms show ?thesis
    unfolding updatePosition_unfold [OF g [unfolded ptr]] c
    by (auto simp: f split: if_splits)
qed

lemma updatePosition_allocated:
  assumes "positionsAllocated b"
  shows "\<exists>b'. updatePosition calcPnl b symbol sz price = Inr b' \<and> positionsAllocated b'"
proof -
  obtain ptr b1 where g: "getPosition b symbol = (ptr, b1)"
    by (cases "getPosition b symbol")
  from getPosition_allocated [OF assms g] obtain position
    where ptr: "ptr = Some position" and a1: "positionsAllocated b1"
    by auto
  obtain err position' b2 where c: "closePosition calcPnl b1 position sz price = (err, position', b2)"
    by (cases "closePosition calcPnl b1 position sz price")
  from a1 closePosition_frame(1) [OF c] show ?thesis
    unfolding updatePosition_unfold [OF g [unfolded ptr]] c
    by (auto simp: positionsAllocated_def)
qed

lemma updatePosition_balance:
  assumes "getPosition b symbol = (Some position, b1)"
    and "updatePosition calcPnl b symbol sz price = Inr b'"
  shows "balance b' = balance b +
           (if (Size position > 0 \<and> sz < 0) \<or> (Size position < 0 \<and> sz > 0)
            then balance (snd (snd (closePosition calcPnl b1 position sz price))) - balance b1
            else 0)"
proof -
  have "balance b1 = balance b"
    using assms(1) by (rule getPosition_frame)
  with assms(2) show ?thesis
    unfolding updatePosition_unfold [OF assms(1)]
    by (auto split: if_splits)
qed

lemma updatePosition_size:
  assumes "getPosition b symbol = (Some position, b1)"
    and "updatePosition calcPnl b symbol sz price = Inr b'"
  shows "\<exists>position'. positions b' symbol = Some (Some position')
           \<and> Size position' = Size position + sz"
proof (cases "(Size position > 0 \<and> sz < 0) \<or> (Size position < 0 \<and> sz > 0)")
  case True
  from assms(2) show ?thesis
    unfolding updatePosition_unfold [OF assms(1)] if_P [OF True]
    using closePosition_size [OF True, of calcPnl b1 price] by auto
next
  case False
  from assms(2) show ?thesis
    unfolding updatePosition_unfold [OF assms(1)] if_not_P [OF False]
    using addPosition_size [OF False, of price] by auto
qed

section \<open>Matching\<close>

lemma addBalance_simps:
  "positions (addBalance b v) = positions b" "orders (addBalance b v) = orders b"
  "openOrders (addBalance b v) = openOrders b" "historyOrders (addBalance b v) = historyOrders b"
  "balance (addBalance b v) = balance b + v" "data (addBalance b v) = data b"
  "takerFeeRate (addBalance b v) = takerFeeRate b"
  by (simp_all add: addBalance_def)

lemma addBalance_allocated:
  "positionsAllocated (addBalance b v) = positionsAllocated b"
  by (simp add: addBalance_def positionsAllocated_def)

lemma broker0_simps:
  "balance broker0 = 100" "takerFeeRate broker0 = 1 / 1024" "data broker0 = tick0"
  "orders broker0 = Map.empty" "openOrders broker0 = Map.empty"
  "historyOrders broker0 = Map.empty" "positions broker0 = Map.empty"
  by (simp_all add: broker0_def NewBroker_def)

lemma tick0_simps: "Ask tick0 = 8192" "Bid tick0 = 8192"
  by (simp_all add: tick0_def)

lemma matchMarketOrder_frame:
  assumes "matchMarketOrder calcPnl b order = Inr (err, b')"
  shows "orders b' = orders b \<and> openOrders b' = openOrders b \<and> historyOrders b' = historyOrders b"
proof -
  obtain ptr b1 where g: "getPosition b (OrderSymbol order) = (ptr, b1)"
    by (cases "getPosition b (OrderSymbol order)")
  note f = getPosition_frame(1-3) [OF g]
  from assms f show ?thesis
    unfolding matchMarketOrder_def g Let_def
    by (auto simp: addBalance_simps split: if_splits option.splits sum.splits
          dest!: updatePosition_frame)
qed

lemma matchMarketOrder_allocated:
  assumes "positionsAllocated b"
  shows "\<exists>err b'. matchMarketOrder calcPnl b order = Inr (err, b') \<and> positionsAllocated b'"
proof -
  obtain ptr b1 where g: "getPosition b (OrderSymbol order) = (ptr, b1)"
    by (cases "getPosition b (OrderSymbol order)")
  from getPosition_allocated [OF assms g] obtain position
    where ptr: "ptr = Some position" and a1: "positionsAllocated b1"
    by auto
  have u: "\<exists>b'. updatePosition calcPnl (addBalance b1 v) (OrderSymbol order) sz price = Inr b'
             \<and> positionsAllocated b'" for v sz price
    using a1 by (intro updatePosition_allocated) (simp add: addBalance_allocated)
  obtain bB where bB:
    "updatePosition calcPnl
       (addBalance b1 (- (Amount order / Ask (data b1) * takerFeeRate b1)))
       (OrderSymbol order) (Amount order) (Ask (data b1)) = Inr bB"
    "positionsAllocated bB"
    using u by blast
  obtain bS where bS:
    "updatePosition calcPnl
       (addBalance b1 (- (Amount order / Bid (data b1) * takerFeeRate b1)))
       (OrderSymbol order) (- Amount order) (Bid (data b1)) = Inr bS"
    "positionsAllocated bS"
    using u by blast
  show ?thesis
    unfolding matchMarketOrder_def g ptr Let_def
    using assms a1 bB bS by simp
qed

lemma matchMarketOrder_fill:
  assumes "matchMarketOrder calcPnl b order = Inr (None, b')"
    and "IsOpen order"
    and "OrderDirection order = Buy \<or> OrderDirection order = Sell"
    and "price = (if OrderDirection order = Buy then Ask (data b) else Bid (data b))"
    and "delta = (if OrderDirection order = Buy then Amount order else - Amount order)"
  shows "\<exists>position b1.
           getPosition b (OrderSymbol order) = (Some position, b1)
           \<and> updatePosition calcPnl
                (addBalance b1 (- (Amount order / price * takerFeeRate b)))
                (OrderSymbol order) delta price = Inr b'"
proof -
  obtain ptr b1 where g: "getPosition b (OrderSymbol order) = (ptr, b1)"
    by (cases "getPosition b (OrderSymbol order)")
  note f = getPosition_frame(4-6) [OF g]
  from assms(1,2) obtain position where ptr: "ptr = Some position"
    unfolding matchMarketOrder_def g by (cases ptr) (auto split: if_splits)
  from assms(3) show ?thesis
  proof
    assume d: "OrderDirection order = Buy"
    from assms(1,2) show ?thesis
      unfolding matchMarketOrder_def g ptr Let_def assms(4,5)
      by (auto simp: d f split: if_splits sum.splits)
  next
    assume d: "OrderDirection order = Sell"
    from assms(1,2) show ?thesis
      unfolding matchMarketOrder_def g ptr Let_def assms(4,5)
      by (auto simp: d f split: if_splits sum.splits)
  qed
qed

lemma matchMarketOrder_order0: "matchMarketOrder examplePnl broker0 order0 =
             Inr (None, broker0\<lparr>balance := 100 - 10 / 8192 * (1 / 1024),
                positions := [''BTC-PERPETUAL'' \<mapsto>
                  Some \<lparr>Symbol = ''BTC-PERPETUAL'', OpenI = 0, OpenPrice = 0, Size = 10,
                        AvgPrice = 8192\<rparr>]\<rparr>)"
  by (simp add: order0_def matchMarketOrder_def IsOpen_def int_of_float64_def
        signed_modulo_int_def getPosition_broker0 broker0_simps tick0_simps
        PositionSizeLimit_def updatePosition_def getPosition_def addBalance_def addPosition_def Let_def)

subsection \<open>The taker fee\<close>

text \<open>
  C7. A successful market fill (the order is open, its direction is buy or sell, and the
  matcher returns no error) at a positive execution price, the ask for a buy and the bid
  for a sell: the balance handed to \<^verbatim>\<open>updatePosition\<close> is the old balance less
  \<open>Amount order / price * takerFeeRate b\<close>, by the same formula in both directions. The
  final balance is that amount plus whatever \<^verbatim>\<open>closePosition\<close> credits when the fill closes
  a position, and exactly that amount when it does not.
\<close>

theorem matchMarketOrder_fee:
  assumes "matchMarketOrder calcPnl b order = Inr (None, b')"
    and "IsOpen order"
    and "OrderDirection order = Buy \<or> OrderDirection order = Sell"
    and "price = (if OrderDirection order = Buy then Ask (data b) else Bid (data b))"
    and "delta = (if OrderDirection order = Buy then Amount order else - Amount order)"
    and "fee = Amount order / price * takerFeeRate b"
    and "0 < price"
  shows "\<exists>position b1.
           getPosition b (OrderSymbol order) = (Some position, b1)
           \<and> balance (addBalance b1 (- fee)) = balance b - fee
           \<and> updatePosition calcPnl (addBalance b1 (- fee)) (OrderSymbol order) delta price = Inr b'
           \<and> balance b' = balance b - fee +
               (if (Size position > 0 \<and> delta < 0) \<or> (Size position < 0 \<and> delta > 0)
                then balance (snd (snd (closePosition calcPnl b1 position delta price))) - balance b1
                else 0)"
proof -
  from matchMarketOrder_fill [OF assms(1-5)] obtain position b1
    where g: "getPosition b (OrderSymbol order) = (Some position, b1)"
      and u: "updatePosition calcPnl (addBalance b1 (- fee)) (OrderSymbol order) delta price = Inr b'"
    unfolding assms(6) by blast
  have bal: "balance (addBalance b1 (- fee)) = balance b - fee"
    using getPosition_frame(4) [OF g] by (simp add: addBalance_simps)
  have "positions b1 (OrderSymbol order) = Some (Some position)"
    using g by (rule getPosition_frame)
  then have g': "getPosition (addBalance b1 (- fee)) (OrderSymbol order)
                   = (Some position, addBalance b1 (- fee))"
    by (simp add: getPosition_present addBalance_simps)
  from updatePosition_balance [OF g' u] bal
  have "balance b' = balance b - fee +
               (if (Size position > 0 \<and> delta < 0) \<or> (Size position < 0 \<and> delta > 0)
                then balance (snd (snd (closePosition calcPnl b1 position delta price))) - balance b1
                else 0)"
    using closePosition_credit [of calcPnl "addBalance b1 (- fee)" position delta price b1]
    by simp
  with g bal u show ?thesis
    by blast
qed

theorem matchMarketOrder_fee_witness:
  "matchMarketOrder examplePnl broker0 order0 =
     Inr (None, broker0\<lparr>balance := 100 - 10 / 8192 * (1 / 1024),
            positions := [''BTC-PERPETUAL'' \<mapsto>
               Some \<lparr>Symbol = ''BTC-PERPETUAL'', OpenI = 0, OpenPrice = 0, Size = 10,
                     AvgPrice = 8192\<rparr>]\<rparr>)
   \<and> balance (broker0\<lparr>balance := 100 - 10 / 8192 * (1 / 1024),
            positions := [''BTC-PERPETUAL'' \<mapsto>
               Some \<lparr>Symbol = ''BTC-PERPETUAL'', OpenI = 0, OpenPrice = 0, Size = 10,
                     AvgPrice = 8192\<rparr>]\<rparr>)
       = balance broker0 - Amount order0 / Ask (data broker0) * takerFeeRate broker0"
proof -
  let ?b' = "broker0\<lparr>balance := 100 - 10 / 8192 * (1 / 1024),
            positions := [''BTC-PERPETUAL'' \<mapsto>
               Some \<lparr>Symbol = ''BTC-PERPETUAL'', OpenI = 0, OpenPrice = 0, Size = 10,
                     AvgPrice = 8192\<rparr>]\<rparr>"
  have h2: "IsOpen order0"
    by (simp add: order0_def IsOpen_def)
  have h3: "OrderDirection order0 = Buy \<or> OrderDirection order0 = Sell"
    by (simp add: order0_def)
  have h4: "Ask (data broker0) =
              (if OrderDirection order0 = Buy then Ask (data broker0) else Bid (data broker0))"
    by (simp add: order0_def)
  have h5: "Amount order0 = (if OrderDirection order0 = Buy then Amount order0 else - Amount order0)"
    by (simp add: order0_def)
  have h7: "0 < Ask (data broker0)"
    by (simp add: broker0_simps tick0_simps)
  from matchMarketOrder_fee [OF matchMarketOrder_order0 h2 h3 h4 h5 refl h7]
  obtain position b1 where g: "getPosition broker0 (OrderSymbol order0) = (Some position, b1)"
    and bal: "balance ?b' =
        balance broker0 - Amount order0 / Ask (data broker0) * takerFeeRate broker0 +
        (if (Size position > 0 \<and> Amount order0 < 0) \<or> (Size position < 0 \<and> Amount order0 > 0)
         then balance (snd (snd (closePosition examplePnl b1 position (Amount order0)
                 (Ask (data broker0))))) - balance b1
         else 0)"
    by blast
  from g have "Size position = 0"
    by (auto simp: order0_def getPosition_broker0)
  with bal have "balance ?b' =
        balance broker0 - Amount order0 / Ask (data broker0) * takerFeeRate broker0"
    by simp
  with matchMarketOrder_order0 show ?thesis
    by (rule conjI)
qed

subsection \<open>Rejected orders and the registry\<close>

lemma matchOrder_frame:
  assumes "matchOrder calcPnl b order = Inr (err, b')"
  shows "orders b' = orders b \<and> openOrders b' = openOrders b \<and> historyOrders b' = historyOrders b"
  using assms matchMarketOrder_frame [of calcPnl b order err b']
  by (cases "OrderTyp order") (auto simp: matchOrder_def matchLimitOrder_def split: if_splits)

lemma PlaceOrder_positions:
  assumes "PlaceOrder calcPnl b oid symbol direction orderType price amount postOnly reduceOnly
             = Inr (err, b')"
  shows "\<exists>b1. matchOrder calcPnl b
            \<lparr>ID = oid, OrderSymbol = symbol, Price = price, Amount = amount,
             OrderAvgPrice = 0, FilledAmount = 0, OrderDirection = direction,
             OrderTyp = orderType, PostOnly = postOnly, ReduceOnly = reduceOnly,
             Status = OrderStatusNew\<rparr> = Inr (err, b1)
           \<and> positions b' = positions b1 \<and> balance b' = balance b1"
  using assms unfolding PlaceOrder_def Let_def
  by (auto split: sum.splits option.splits prod.splits if_splits)

text \<open>
  C3, as stated, fails. A market order of amount 15 is rejected with the invalid-size error,
  and \<^verbatim>\<open>PlaceOrder\<close> returns at once: nothing is filed, and \<^verbatim>\<open>GetOrder\<close> with the id of the
  rejected order answers not found.
\<close>

theorem PlaceOrder_rejected_order_is_not_found:
  "PlaceOrder examplePnl broker0 1 ''BTC-PERPETUAL'' Buy OrderTypeMarket 0 15 False False
     = Inr (Some InvalidSize, broker0)
   \<and> GetOrder broker0 ''BTC-PERPETUAL'' 1 = (Inl NotFound, broker0)"
  by (simp add: PlaceOrder_def matchOrder_def matchMarketOrder_def IsOpen_def int_of_float64_def
      signed_modulo_int_def GetOrder_def broker0_def NewBroker_def)

text \<open>
  C3, amended. When matching returns an error, \<^verbatim>\<open>PlaceOrder\<close> returns that error and the
  state matching left, without filing the order: the three order maps are the ones before
  the call, so \<^verbatim>\<open>GetOrder\<close> with the order's id answers not found unless that id was
  registered before.
\<close>

theorem PlaceOrder_error_not_recorded:
  assumes "matchOrder calcPnl b
            \<lparr>ID = oid, OrderSymbol = symbol, Price = price, Amount = amount,
             OrderAvgPrice = 0, FilledAmount = 0, OrderDirection = direction,
             OrderTyp = orderType, PostOnly = postOnly, ReduceOnly = reduceOnly,
             Status = OrderStatusNew\<rparr> = Inr (Some err, b1)"
  shows "PlaceOrder calcPnl b oid symbol direction orderType price amount postOnly reduceOnly
           = Inr (Some err, b1)
         \<and> orders b1 = orders b \<and> openOrders b1 = openOrders b
         \<and> historyOrders b1 = historyOrders b
         \<and> (orders b oid = None \<longrightarrow> GetOrder b1 symbol oid = (Inl NotFound, b1))"
proof -
  have p: "PlaceOrder calcPnl b oid symbol direction orderType price amount postOnly reduceOnly
             = Inr (Some err, b1)"
    unfolding PlaceOrder_def Let_def assms by simp
  from matchOrder_frame [OF assms] have f: "orders b1 = orders b" "openOrders b1 = openOrders b"
    "historyOrders b1 = historyOrders b"
    by simp_all
  from p f show ?thesis
    by (simp add: GetOrder_def)
qed

text \<open>
  A market buy of 200000 from a flat position is rejected by the position limit after
  \<^verbatim>\<open>getPosition\<close> has stored the zero position: the error and that state come back, and the
  order is in none of the maps.
\<close>

theorem PlaceOrder_error_not_recorded_witness:
  "PlaceOrder examplePnl broker0 1 ''BTC-PERPETUAL'' Buy OrderTypeMarket 0 200000 False False
     = Inr (Some MaximumPositionSize,
         broker0\<lparr>positions := [''BTC-PERPETUAL'' \<mapsto>
           Some \<lparr>Symbol = ''BTC-PERPETUAL'', OpenI = 0, OpenPrice = 0, Size = 0, AvgPrice = 0\<rparr>]\<rparr>)
   \<and> orders (broker0\<lparr>positions := [''BTC-PERPETUAL'' \<mapsto>
           Some \<lparr>Symbol = ''BTC-PERPETUAL'', OpenI = 0, OpenPrice = 0, Size = 0, AvgPrice = 0\<rparr>]\<rparr>)
       = Map.empty
   \<and> openOrders (broker0\<lparr>positions := [''BTC-PERPETUAL'' \<mapsto>
           Some \<lparr>Symbol = ''BTC-PERPETUAL'', OpenI = 0, OpenPrice = 0, Size = 0, AvgPrice = 0\<rparr>]\<rparr>)
       = Map.empty
   \<and> historyOrders (broker0\<lparr>positions := [''BTC-PERPETUAL'' \<mapsto>
           Some \<lparr>Symbol = ''BTC-PERPETUAL'', OpenI = 0, OpenPrice = 0, Size = 0, AvgPrice = 0\<rparr>]\<rparr>)
       = Map.empty
   \<and> GetOrder (broker0\<lparr>positions := [''BTC-PERPETUAL'' \<mapsto>
           Some \<lparr>Symbol = ''BTC-PERPETUAL'', OpenI = 0, OpenPrice = 0, Size = 0, AvgPrice = 0\<rparr>]\<rparr>)
         ''BTC-PERPETUAL'' 1
       = (Inl NotFound,
          broker0\<lparr>positions := [''BTC-PERPETUAL'' \<mapsto>
           Some \<lparr>Symbol = ''BTC-PERPETUAL'', OpenI = 0, OpenPrice = 0, Size = 0, AvgPrice = 0\<rparr>]\<rparr>)"
proof -
  let ?b1 = "broker0\<lparr>positions := [''BTC-PERPETUAL'' \<mapsto>
           Some \<lparr>Symbol = ''BTC-PERPETUAL'', OpenI = 0, OpenPrice = 0, Size = 0, AvgPrice = 0\<rparr>]\<rparr>"
  have m: "matchOrder examplePnl broker0
            \<lparr>ID = 1, OrderSymbol = ''BTC-PERPETUAL'', Price = 0, Amount = 200000,
             OrderAvgPrice = 0, FilledAmount = 0, OrderDirection = Buy,
             OrderTyp = OrderTypeMarket, PostOnly = False, ReduceOnly = False,
             Status = OrderStatusNew\<rparr> = Inr (Some MaximumPositionSize, ?b1)"
    by (simp add: matchOrder_def matchMarketOrder_def IsOpen_def int_of_float64_def
        signed_modulo_int_def getPosition_broker0 PositionSizeLimit_def)
  have e: "orders broker0 1 = None" "orders broker0 = Map.empty"
    "openOrders broker0 = Map.empty" "historyOrders broker0 = Map.empty"
    by (simp_all add: broker0_simps)
  from PlaceOrder_error_not_recorded [OF m] e show ?thesis
    by simp
qed

subsection \<open>The contract size\<close>

text \<open>
  The size test looks at the truncated amount: an amount whose integer part is not a
  multiple of 10 is rejected before anything is written.
\<close>

lemma PlaceOrder_rejects_truncated_non_multiple:
  assumes "int_of_float64 amount smod 10 \<noteq> 0"
  shows "PlaceOrder calcPnl b oid symbol direction OrderTypeMarket price amount postOnly reduceOnly
           = Inr (Some InvalidSize, b)"
  using assms by (simp add: PlaceOrder_def matchOrder_def matchMarketOrder_def IsOpen_def)

text \<open>
  C4. An amount that is not a multiple of 10 should be rejected. The amount 10.5 is not
  rejected: \<^verbatim>\<open>int(10.5) % 10\<close> is 0, so the order passes the size test, is filled and
  recorded, and leaves a position of 10.5.
\<close>

theorem PlaceOrder_fractional_amount_accepted:
  "PlaceOrder examplePnl broker0 1 ''BTC-PERPETUAL'' Buy OrderTypeMarket 0 10.5 False False =
     Inr (None,
       broker0\<lparr>balance := 100 - 10.5 / 8192 * (1 / 1024),
         orders := [1 \<mapsto> \<lparr>ID = 1, OrderSymbol = ''BTC-PERPETUAL'', Price = 0, Amount = 10.5,
             OrderAvgPrice = 0, FilledAmount = 0, OrderDirection = Buy,
             OrderTyp = OrderTypeMarket, PostOnly = False, ReduceOnly = False,
             Status = OrderStatusNew\<rparr>],
         openOrders := [1 \<mapsto> \<lparr>ID = 1, OrderSymbol = ''BTC-PERPETUAL'', Price = 0, Amount = 10.5,
             OrderAvgPrice = 0, FilledAmount = 0, OrderDirection = Buy,
             OrderTyp = OrderTypeMarket, PostOnly = False, ReduceOnly = False,
             Status = OrderStatusNew\<rparr>],
         positions := [''BTC-PERPETUAL'' \<mapsto>
             Some \<lparr>Symbol = ''BTC-PERPETUAL'', OpenI = 0, OpenPrice = 0, Size = 10.5,
                   AvgPrice = 8192\<rparr>]\<rparr>)"
  by (simp add: PlaceOrder_def matchOrder_def matchMarketOrder_def IsOpen_def int_of_float64_def
        signed_modulo_int_def getPosition_broker0 broker0_simps tick0_simps
        PositionSizeLimit_def updatePosition_def getPosition_def addBalance_def addPosition_def Let_def)

subsection \<open>The position size limit\<close>

lemma int_of_float64_of_int:
  assumes "x \<in> \<int>"
  shows "real_of_int (int_of_float64 x) = x"
  using assms by (auto simp: int_of_float64_def elim!: Ints_cases)

text \<open>
  With a non-negative whole amount and whole position sizes, the limit test does what it is
  there for: whatever the outcome of a market order, a position within the limit stays
  within it.
\<close>

lemma matchMarketOrder_position_limit_integral:
  assumes m: "matchMarketOrder calcPnl b order = Inr (err, b')"
    and amt: "0 \<le> Amount order" "Amount order \<in> \<int>"
    and inv: "\<And>position. positions b (OrderSymbol order) = Some (Some position)
                \<Longrightarrow> Size position \<in> \<int> \<and> \<bar>Size position\<bar> \<le> real_of_int PositionSizeLimit"
    and p': "positions b' (OrderSymbol order) = Some (Some position')"
  shows "Size position' \<in> \<int> \<and> \<bar>Size position'\<bar> \<le> real_of_int PositionSizeLimit"
proof (cases "\<not> IsOpen order \<or> int_of_float64 (Amount order) smod 10 \<noteq> 0")
  case True
  with m have "b' = b"
    by (auto simp: matchMarketOrder_def split: if_splits)
  with inv p' show ?thesis
    by simp
next
  case False
  obtain ptr b1 where g: "getPosition b (OrderSymbol order) = (ptr, b1)"
    by (cases "getPosition b (OrderSymbol order)")
  with m False obtain position where ptr: "ptr = Some position"
    by (cases ptr) (auto simp: matchMarketOrder_def split: if_splits)
  note g = g [unfolded ptr]
  have p1: "positions b1 (OrderSymbol order) = Some (Some position)"
    using g by (rule getPosition_frame)
  have ok: "Size position \<in> \<int> \<and> \<bar>Size position\<bar> \<le> real_of_int PositionSizeLimit"
  proof (cases "positions b (OrderSymbol order)")
    case None
    with g show ?thesis
      by (auto simp: getPosition_absent PositionSizeLimit_def)
  next
    case (Some q)
    with g inv show ?thesis
      by (auto simp: getPosition_present)
  qed
  have same: ?thesis if "b' = b1"
    using that p1 p' ok by simp
  have g': "getPosition (addBalance b1 v) (OrderSymbol order) = (Some position, addBalance b1 v)" for v
    using p1 by (simp add: getPosition_present addBalance_simps)
  have fill: ?thesis
    if u: "updatePosition calcPnl (addBalance b1 v) (OrderSymbol order) sz price = Inr b'"
      and lim: "\<not> PositionSizeLimit < int_of_float64 (Size position + Amount order)"
               "\<not> int_of_float64 (Size position - Amount order) < - PositionSizeLimit"
      and sz: "sz = Amount order \<or> sz = - Amount order"
    for v sz price
  proof -
    from updatePosition_size [OF g' u] p' have s': "Size position' = Size position + sz"
      by auto
    have i1: "Size position + Amount order \<in> \<int>" and i2: "Size position - Amount order \<in> \<int>"
      using amt ok by auto
    from lim have "real_of_int (int_of_float64 (Size position + Amount order)) \<le> real_of_int PositionSizeLimit"
      and "real_of_int (- PositionSizeLimit) \<le> real_of_int (int_of_float64 (Size position - Amount order))"
      by simp_all
    then have up: "Size position + Amount order \<le> real_of_int PositionSizeLimit"
      and lo: "- real_of_int PositionSizeLimit \<le> Size position - Amount order"
      by (simp_all add: int_of_float64_of_int [OF i1] int_of_float64_of_int [OF i2])
    from sz have "Size position' \<in> \<int>"
      using s' i1 i2 by auto
    moreover from sz up lo amt ok have "\<bar>Size position'\<bar> \<le> real_of_int PositionSizeLimit"
      unfolding s' by auto
    ultimately show ?thesis ..
  qed
  from m False
  have "b' = b1 \<or>
        (\<exists>v sz price.
            updatePosition calcPnl (addBalance b1 v) (OrderSymbol order) sz price = Inr b'
            \<and> \<not> PositionSizeLimit < int_of_float64 (Size position + Amount order)
            \<and> \<not> int_of_float64 (Size position - Amount order) < - PositionSizeLimit
            \<and> (sz = Amount order \<or> sz = - Amount order))"
    unfolding matchMarketOrder_def g Let_def
    by (auto split: if_splits sum.splits)
  then show ?thesis
    using same fill by blast
qed

lemma PlaceOrder_position_limit_integral:
  assumes "PlaceOrder calcPnl b oid symbol direction OrderTypeMarket price amount postOnly reduceOnly
             = Inr (err, b')"
    and "0 \<le> amount" and "amount \<in> \<int>"
    and "\<And>position. positions b symbol = Some (Some position)
           \<Longrightarrow> Size position \<in> \<int> \<and> \<bar>Size position\<bar> \<le> real_of_int PositionSizeLimit"
    and "positions b' symbol = Some (Some position')"
  shows "Size position' \<in> \<int> \<and> \<bar>Size position'\<bar> \<le> real_of_int PositionSizeLimit"
proof -
  define order where "order = \<lparr>ID = oid, OrderSymbol = symbol, Price = price, Amount = amount,
             OrderAvgPrice = 0, FilledAmount = 0, OrderDirection = direction,
             OrderTyp = OrderTypeMarket, PostOnly = postOnly, ReduceOnly = reduceOnly,
             Status = OrderStatusNew\<rparr>"
  from PlaceOrder_positions [OF assms(1)] obtain b1
    where m: "matchMarketOrder calcPnl b order = Inr (err, b1)"
      and p: "positions b' = positions b1"
    unfolding order_def [symmetric] by (auto simp: matchOrder_def order_def)
  have sel: "OrderSymbol order = symbol" "Amount order = amount"
    by (simp_all add: order_def)
  show ?thesis
    using matchMarketOrder_position_limit_integral [OF m, of position'] assms(2-5)
    unfolding sel p by blast
qed

text \<open>
  C2. After a market order the position's absolute size should still be at most 100000. A
  market buy of 100000.5 from a flat position passes both tests, because
  \<^verbatim>\<open>int(0 + 100000.5)\<close> is 100000, and leaves a position of 100000.5.
\<close>

theorem PlaceOrder_breaches_position_limit:
  "PlaceOrder examplePnl broker0 1 ''BTC-PERPETUAL'' Buy OrderTypeMarket 0 100000.5 False False =
     Inr (None,
       broker0\<lparr>balance := 100 - 100000.5 / 8192 * (1 / 1024),
         orders := [1 \<mapsto> \<lparr>ID = 1, OrderSymbol = ''BTC-PERPETUAL'', Price = 0, Amount = 100000.5,
             OrderAvgPrice = 0, FilledAmount = 0, OrderDirection = Buy,
             OrderTyp = OrderTypeMarket, PostOnly = False, ReduceOnly = False,
             Status = OrderStatusNew\<rparr>],
         openOrders := [1 \<mapsto> \<lparr>ID = 1, OrderSymbol = ''BTC-PERPETUAL'', Price = 0, Amount = 100000.5,
             OrderAvgPrice = 0, FilledAmount = 0, OrderDirection = Buy,
             OrderTyp = OrderTypeMarket, PostOnly = False, ReduceOnly = False,
             Status = OrderStatusNew\<rparr>],
         positions := [''BTC-PERPETUAL'' \<mapsto>
             Some \<lparr>Symbol = ''BTC-PERPETUAL'', OpenI = 0, OpenPrice = 0, Size = 100000.5,
                   AvgPrice = 8192\<rparr>]\<rparr>)
   \<and> real_of_int PositionSizeLimit < \<bar>100000.5\<bar>"
  by (simp add: PlaceOrder_def matchOrder_def matchMarketOrder_def IsOpen_def int_of_float64_def
        signed_modulo_int_def getPosition_broker0 broker0_simps tick0_simps
        PositionSizeLimit_def updatePosition_def getPosition_def addBalance_def addPosition_def Let_def)

section \<open>Queries\<close>

text \<open>
  C8. \<^verbatim>\<open>GetOrder\<close> with an id that is not a key of \<^verbatim>\<open>orders\<close>, and \<^verbatim>\<open>GetPosition\<close> with a
  symbol that is not a key of \<^verbatim>\<open>positions\<close>, return the not-found error and the state they
  were given.
\<close>

theorem lookup_unknown_not_found:
  "(orders b oid = None \<longrightarrow> GetOrder b symbol oid = (Inl NotFound, b))
   \<and> (positions b symbol' = None \<longrightarrow> GetPosition b symbol' = Inr (Inl NotFound, b))"
  by (simp add: GetOrder_def GetPosition_def)

theorem lookup_unknown_not_found_witness:
  "GetOrder broker0 ''BTC-PERPETUAL'' 7 = (Inl NotFound, broker0)
   \<and> GetPosition broker0 ''BTC-PERPETUAL'' = Inr (Inl NotFound, broker0)"
  using lookup_unknown_not_found [of broker0 7 "''BTC-PERPETUAL''" "''BTC-PERPETUAL''"]
  by (simp add: broker0_def NewBroker_def)

text \<open>
  C9. \<^verbatim>\<open>GetAccountSummary\<close> for a currency whose symbol has no position record returns a
  state whose \<^verbatim>\<open>positions\<close> map has a fresh position of size zero under that symbol:
  \<^verbatim>\<open>GetPosition\<close> answered not found before the call and returns that position after it.
\<close>

theorem GetAccountSummary_creates_position:
  assumes "symbol = (if currency = ''BTC'' then ''BTC-PERPETUAL''
                     else if currency = ''ETH'' then ''ETH-PERPETUAL'' else '''')"
    and "positions b symbol = None"
  shows "\<exists>result b'.
           GetAccountSummary calcPnl b currency = Inr (result, b')
           \<and> positions b' = (positions b)(symbol \<mapsto>
                 Some \<lparr>Symbol = symbol, OpenI = 0, OpenPrice = 0, Size = 0, AvgPrice = 0\<rparr>)
           \<and> GetPosition b symbol = Inr (Inl NotFound, b)
           \<and> GetPosition b' symbol =
                 Inr (Inr \<lparr>Symbol = symbol, OpenI = 0, OpenPrice = 0, Size = 0, AvgPrice = 0\<rparr>, b')"
  using assms(2) unfolding GetAccountSummary_def assms(1) [symmetric] Let_def
  by (simp add: getPosition_absent GetPosition_def)

theorem GetAccountSummary_creates_position_witness:
  "\<exists>result b'.
     GetAccountSummary examplePnl broker0 ''BTC'' = Inr (result, b')
     \<and> positions b' = (positions broker0)(''BTC-PERPETUAL'' \<mapsto>
           Some \<lparr>Symbol = ''BTC-PERPETUAL'', OpenI = 0, OpenPrice = 0, Size = 0, AvgPrice = 0\<rparr>)
     \<and> GetPosition broker0 ''BTC-PERPETUAL'' = Inr (Inl NotFound, broker0)
     \<and> GetPosition b' ''BTC-PERPETUAL'' =
           Inr (Inr \<lparr>Symbol = ''BTC-PERPETUAL'', OpenI = 0, OpenPrice = 0, Size = 0, AvgPrice = 0\<rparr>, b')"
  using GetAccountSummary_creates_position [of "''BTC-PERPETUAL''" "''BTC''" broker0 examplePnl]
  by (simp add: broker0_def NewBroker_def)

section \<open>Reachable states\<close>

lemma PlaceOrder_allocated:
  assumes "positionsAllocated b"
  shows "\<exists>err b'. PlaceOrder calcPnl b oid symbol direction orderType price amount postOnly reduceOnly
            = Inr (err, b') \<and> positionsAllocated b'"
proof -
  define order where "order = \<lparr>ID = oid, OrderSymbol = symbol, Price = price, Amount = amount,
                   OrderAvgPrice = 0, FilledAmount = 0, OrderDirection = direction,
                   OrderTyp = orderType, PostOnly = postOnly, ReduceOnly = reduceOnly,
                   Status = OrderStatusNew\<rparr>"
  have "\<exists>err b1. matchOrder calcPnl b order = Inr (err, b1) \<and> positionsAllocated b1"
    using assms matchMarketOrder_allocated [OF assms, of calcPnl order]
    by (cases "OrderTyp order") (auto simp: matchOrder_def matchLimitOrder_def)
  then obtain err b1 where m: "matchOrder calcPnl b order = Inr (err, b1)"
    and a1: "positionsAllocated b1"
    by blast
  show ?thesis
    unfolding PlaceOrder_def order_def [symmetric] Let_def m
    using a1 by (cases err) (auto simp: positionsAllocated_def)
qed

lemma GetAccountSummary_allocated:
  assumes "positionsAllocated b"
  shows "\<exists>result b'. GetAccountSummary calcPnl b currency = Inr (result, b') \<and> positionsAllocated b'"
proof -
  define symbol where "symbol = (if currency = ''BTC'' then ''BTC-PERPETUAL''
                    else if currency = ''ETH'' then ''ETH-PERPETUAL'' else '''')"
  obtain ptr b1 where g: "getPosition b symbol = (ptr, b1)"
    by (cases "getPosition b symbol")
  from getPosition_allocated [OF assms g] obtain position
    where ptr: "ptr = Some position" and a1: "positionsAllocated b1"
    by auto
  show ?thesis
    unfolding GetAccountSummary_def symbol_def [symmetric] Let_def g ptr
    using a1 by simp
qed

lemma reachable_allocated:
  assumes "reachable calcPnl b"
  shows "positionsAllocated b"
  using assms
proof (induction rule: reachable.induct)
  case (reachable_NewBroker d cash makerFee takerFee)
  show ?case by (simp add: NewBroker_def positionsAllocated_def)
next
  case (reachable_tick b d)
  then show ?case by (simp add: positionsAllocated_def)
next
  case (reachable_PlaceOrder b oid symbol direction orderType price amount postOnly reduceOnly err b')
  with PlaceOrder_allocated [OF reachable_PlaceOrder.IH, of calcPnl oid symbol direction orderType
      price amount postOnly reduceOnly]
  show ?case by auto
next
  case (reachable_GetAccountSummary b currency result b')
  with GetAccountSummary_allocated [OF reachable_GetAccountSummary.IH, of calcPnl currency]
  show ?case by auto
next
  case (reachable_GetOrder b symbol oid r b')
  then show ?case by (auto simp: GetOrder_def split: option.splits)
next
  case (reachable_GetPosition b symbol rp b')
  then show ?case by (auto simp: GetPosition_def split: option.splits)
qed

text \<open>
  C10. In every reachable state and for every symbol, size and price, \<^verbatim>\<open>getPosition\<close> returns
  a pointer that is not nil (the lazily created zero position when the symbol is absent),
  and \<^verbatim>\<open>updatePosition\<close> returns: neither its \<^verbatim>\<open>log.Fatalf\<close> branch nor any other abort is
  taken.
\<close>

theorem updatePosition_never_fatal:
  assumes "reachable calcPnl b"
  shows "(\<exists>position b1. getPosition b symbol = (Some position, b1))
         \<and> (positions b symbol = None \<longrightarrow>
              getPosition b symbol =
                (Some \<lparr>Symbol = symbol, OpenI = 0, OpenPrice = 0, Size = 0, AvgPrice = 0\<rparr>,
                 b\<lparr>positions := (positions b)(symbol \<mapsto>
                   Some \<lparr>Symbol = symbol, OpenI = 0, OpenPrice = 0, Size = 0, AvgPrice = 0\<rparr>)\<rparr>))
         \<and> (\<exists>b'. updatePosition calcPnl b symbol sz price = Inr b')"
proof -
  have a: "positionsAllocated b"
    using assms by (rule reachable_allocated)
  obtain ptr b1 where g: "getPosition b symbol = (ptr, b1)"
    by (cases "getPosition b symbol")
  with getPosition_allocated(1) [OF a g] have "\<exists>position b1. getPosition b symbol = (Some position, b1)"
    by auto
  moreover from updatePosition_allocated [OF a]
  have "\<exists>b'. updatePosition calcPnl b symbol sz price = Inr b'"
    by blast
  ultimately show ?thesis
    by (simp add: getPosition_absent)
qed

theorem updatePosition_never_fatal_witness:
  "getPosition broker0 ''BTC-PERPETUAL'' =
     (Some \<lparr>Symbol = ''BTC-PERPETUAL'', OpenI = 0, OpenPrice = 0, Size = 0, AvgPrice = 0\<rparr>,
      broker0\<lparr>positions := [''BTC-PERPETUAL'' \<mapsto>
         Some \<lparr>Symbol = ''BTC-PERPETUAL'', OpenI = 0, OpenPrice = 0, Size = 0, AvgPrice = 0\<rparr>]\<rparr>)
   \<and> (\<exists>b'. updatePosition examplePnl broker0 ''BTC-PERPETUAL'' 10 8192 = Inr b')"
proof -
  have r: "reachable examplePnl broker0"
    unfolding broker0_def by (rule reachable_NewBroker)
  have e: "positions broker0 ''BTC-PERPETUAL'' = None"
    by (simp add: broker0_simps)
  from updatePosition_never_fatal [OF r, of "''BTC-PERPETUAL''" 10 8192] e show ?thesis
    by (simp add: broker0_simps)
qed

end
